theory Spec2Isabelle
  imports Complex_Main "HOL-Library.Word" "HOL-Library.Multiset"
begin

section \<open>Data model: the Directory and the Role Registry\<close>

text \<open>
  The role-management core of the application lives in the stored procedures of
  \<^verbatim>\<open>supabase/users-schema-ultra-safe.sql\<close>. Its state is two tables:
  \<^verbatim>\<open>public.users\<close> (the Directory) and \<^verbatim>\<open>public.admin_users\<close>
  (the Role Registry). A \<^verbatim>\<open>uuid\<close> is a 128-bit value, a \<^verbatim>\<open>timestamptz\<close>
  is a count of microseconds, \<^verbatim>\<open>text\<close> is a string, and a column or argument
  that can be SQL's NULL is an option with \<open>None\<close> for NULL.
\<close>

type_synonym uuid = "128 word"
type_synonym timestamptz = int

text \<open>One row of \<^verbatim>\<open>public.users\<close>, column by column (the primary key \<^verbatim>\<open>id\<close>
  is the field \<open>u_id\<close>; the \<^verbatim>\<open>jsonb\<close> column is kept as its text).\<close>

record user_row =
  u_id :: uuid
  email :: string
  full_name :: "string option"
  avatar_url :: "string option"
  phone :: "string option"
  created_at :: timestamptz
  updated_at :: timestamptz
  last_sign_in_at :: "timestamptz option"
  is_active :: bool
  metadata :: string

text \<open>One row of \<^verbatim>\<open>public.admin_users\<close>. The table is keyed by \<^verbatim>\<open>id\<close>
  (the procedures rely on it in \<^verbatim>\<open>on conflict (id)\<close>), so the table is a
  partial map from the key to the remaining columns. Whether \<^verbatim>\<open>role\<close> can be
  NULL is up to the table's declaration, so the field is an option.\<close>

record admin_row =
  role :: "string option"
  au_created_at :: timestamptz
  au_updated_at :: timestamptz
  created_by :: "uuid option"

text \<open>One row of \<^verbatim>\<open>admin_audit_log\<close>, as the admin page writes it.\<close>

record audit_row =
  admin_id :: uuid
  action :: string
  target_type :: string
  target_id :: uuid
  new_data_role :: string

record db =
  users :: "user_row list"
  admin_users :: "uuid \<rightharpoonup> admin_row"
  admin_audit_log :: "audit_row list"

text \<open>Errors of the storage layer: an exception raised by a procedure with its message,
  the violation of a constraint of the table (\<open>check_violation\<close> stands for the row
  constraints of the column \<^verbatim>\<open>role\<close>, CHECK and NOT NULL alike), or the error
  42702 of a column reference that is ambiguous.\<close>

datatype pg_error =
    Raised string
  | check_violation
  | unique_violation
  | foreign_key_violation
  | ambiguous_column

abbreviation promote_unauthorized :: pg_error where
  "promote_unauthorized \<equiv> Raised ''Only super_admins can promote users to admin''"

abbreviation demote_unauthorized :: pg_error where
  "demote_unauthorized \<equiv> Raised ''Only super_admins can demote users''"

abbreviation list_unauthorized :: pg_error where
  "list_unauthorized \<equiv> Raised ''Only admins can view all users''"

abbreviation user_not_found :: pg_error where
  "user_not_found \<equiv> Raised ''User does not exist''"

abbreviation untouchable :: pg_error where
  "untouchable \<equiv> Raised ''Cannot modify super_admin role - super_admins are untouchable''"

abbreviation invalid_role :: pg_error where
  "invalid_role \<equiv> Raised ''Invalid role. Must be user, admin, or super_admin''"

abbreviation invalid_role_narrow :: pg_error where
  "invalid_role_narrow \<equiv> Raised ''Invalid role. Must be user or admin''"

section \<open>The table \<^verbatim>\<open>admin_users\<close>: constraints, insert, upsert, delete\<close>

text \<open>
  The table \<^verbatim>\<open>admin_users\<close> is created by an earlier migration, not by the
  schema files modelled here, so the row constraints on the column \<^verbatim>\<open>role\<close>
  (a CHECK, a NOT NULL, both or none) are a parameter \<open>role_ok\<close> of every operation
  that writes a row: \<open>role_ok r\<close> holds when the table accepts the value \<open>r\<close>. The foreign key of \<^verbatim>\<open>id\<close>
  into \<^verbatim>\<open>public.users\<close> is declared by the users-management migration. The
  columns \<^verbatim>\<open>created_at\<close> and \<^verbatim>\<open>updated_at\<close> of a new row take the time of
  the statement, which is the parameter \<open>now\<close>.
\<close>

definition admin_users_role_check :: "string option \<Rightarrow> bool" where
  \<comment> \<open>Modelled from the spec: the declaration of the table \<^verbatim>\<open>admin_users\<close> is missing;
      the spec gives the column as "role (enumerated: admin, super_admin; absence
      implies implicit user)".\<close>
  "admin_users_role_check r \<longleftrightarrow> r \<in> set [Some ''admin'', Some ''super_admin'']"


definition user_exists :: "db \<Rightarrow> uuid \<Rightarrow> bool" where
  \<comment> \<open>\<^verbatim>\<open>exists (select 1 from public.users where id = target_user_id)\<close>\<close>
  "user_exists st i \<longleftrightarrow> (\<exists>u \<in> set (users st). u_id u = i)"

definition has_role :: "db \<Rightarrow> uuid option \<Rightarrow> string list \<Rightarrow> bool" where
  \<comment> \<open>\<^verbatim>\<open>exists (select 1 from public.admin_users where id = X and role in (...))\<close>;
      when \<open>X\<close> or the role of the row is NULL the condition is NULL and no row
      matches.\<close>
  "has_role st x rs =
     (case x of
        None \<Rightarrow> False
      | Some i \<Rightarrow>
          (case admin_users st i of
             None \<Rightarrow> False
           | Some a \<Rightarrow> (case role a of None \<Rightarrow> False | Some r \<Rightarrow> r \<in> set rs)))"

definition insert_admin_users ::
  "(string option \<Rightarrow> bool) \<Rightarrow> timestamptz \<Rightarrow> db \<Rightarrow> uuid \<Rightarrow> string option \<Rightarrow> uuid option \<Rightarrow> pg_error + db" where
  \<comment> \<open>\<^verbatim>\<open>insert into admin_users (id, role, created_by) values (...)\<close>: the row
      constraint is checked first, then the key, then the foreign key.\<close>
  "insert_admin_users role_ok now st i r creator =
     (if \<not> role_ok r then Inl check_violation
      else if admin_users st i \<noteq> None then Inl unique_violation
      else if \<not> user_exists st i then Inl foreign_key_violation
      else Inr (st\<lparr>admin_users := (admin_users st)(i \<mapsto>
             \<lparr>role = r, au_created_at = now, au_updated_at = now, created_by = creator\<rparr>)\<rparr>))"

definition upsert_admin_users ::
  "(string option \<Rightarrow> bool) \<Rightarrow> timestamptz \<Rightarrow> db \<Rightarrow> uuid \<Rightarrow> string option \<Rightarrow> uuid option \<Rightarrow> pg_error + db" where
  \<comment> \<open>The same insert with \<^verbatim>\<open>on conflict (id) do update set role = excluded.role,
      updated_at = now(), created_by = auth.uid()\<close>.\<close>
  "upsert_admin_users role_ok now st i r creator =
     (if \<not> role_ok r then Inl check_violation
      else case admin_users st i of
        None \<Rightarrow> insert_admin_users role_ok now st i r creator
      | Some old \<Rightarrow> Inr (st\<lparr>admin_users := (admin_users st)(i \<mapsto>
             old\<lparr>role := r, au_updated_at := now, created_by := creator\<rparr>)\<rparr>))"

definition delete_admin_users :: "db \<Rightarrow> uuid \<Rightarrow> db" where
  \<comment> \<open>\<^verbatim>\<open>delete from public.admin_users where id = target_user_id\<close>\<close>
  "delete_admin_users st i = st\<lparr>admin_users := (admin_users st)(i := None)\<rparr>"

section \<open>The Role-Transition Gate\<close>

text \<open>
  Each procedure runs as the caller \<open>uid\<close>, the value of \<^verbatim>\<open>auth.uid()\<close>, which is
  \<open>None\<close> for a request without a signed-in user. A procedure returns the new state
  (and \<^verbatim>\<open>true\<close>) or the error it raises; the checks are in the order of the source.
  The argument \<^verbatim>\<open>new_role\<close> can be NULL: then \<^verbatim>\<open>new_role not in (...)\<close> is NULL,
  the \<^verbatim>\<open>if\<close> does not take its branch, and the statement after it runs.
\<close>

definition promote_user_to_admin ::
  "(string option \<Rightarrow> bool) \<Rightarrow> timestamptz \<Rightarrow> uuid option \<Rightarrow> db \<Rightarrow> uuid \<Rightarrow> string option \<Rightarrow> pg_error + db" where
  "promote_user_to_admin role_ok now uid st target_user_id new_role =
     (if \<not> has_role st uid [''super_admin''] then Inl promote_unauthorized
      else if \<not> user_exists st target_user_id then Inl user_not_found
      else if has_role st (Some target_user_id) [''super_admin''] then Inl untouchable
      else if (case new_role of None \<Rightarrow> False
                 | Some r \<Rightarrow> r \<notin> set [''user'', ''admin'', ''super_admin''])
        then Inl invalid_role
      else upsert_admin_users role_ok now st target_user_id new_role uid)"

text \<open>The users-management migration declares the same procedure with a narrower
  validation: \<^verbatim>\<open>new_role not in ('user', 'admin')\<close>. Everything else is equal.\<close>

definition promote_user_to_admin_narrow ::
  "(string option \<Rightarrow> bool) \<Rightarrow> timestamptz \<Rightarrow> uuid option \<Rightarrow> db \<Rightarrow> uuid \<Rightarrow> string option \<Rightarrow> pg_error + db" where
  "promote_user_to_admin_narrow role_ok now uid st target_user_id new_role =
     (if \<not> has_role st uid [''super_admin''] then Inl promote_unauthorized
      else if \<not> user_exists st target_user_id then Inl user_not_found
      else if has_role st (Some target_user_id) [''super_admin''] then Inl untouchable
      else if (case new_role of None \<Rightarrow> False | Some r \<Rightarrow> r \<notin> set [''user'', ''admin''])
        then Inl invalid_role_narrow
      else upsert_admin_users role_ok now st target_user_id new_role uid)"

definition demote_admin_to_user :: "uuid option \<Rightarrow> db \<Rightarrow> uuid \<Rightarrow> pg_error + db" where
  "demote_admin_to_user uid st target_user_id =
     (if \<not> has_role st uid [''super_admin''] then Inl demote_unauthorized
      else if has_role st (Some target_user_id) [''super_admin''] then Inl untouchable
      else Inr (delete_admin_users st target_user_id))"


definition state_after :: "db \<Rightarrow> pg_error + db \<Rightarrow> db" where
  \<comment> \<open>A raised exception aborts the call and leaves the tables as they were.\<close>
  "state_after st res = (case res of Inl _ \<Rightarrow> st | Inr st' \<Rightarrow> st')"

section \<open>Listing: \<^verbatim>\<open>get_all_users\<close>\<close>

text \<open>The row that \<^verbatim>\<open>get_all_users\<close> returns: the columns of its
  \<^verbatim>\<open>returns table\<close> clause.\<close>

record all_users_row =
  row_id :: uuid
  row_email :: string
  row_full_name :: "string option"
  row_avatar_url :: "string option"
  row_phone :: "string option"
  row_created_at :: timestamptz
  row_last_sign_in_at :: "timestamptz option"
  row_is_active :: bool
  admin_role :: string
  is_admin :: bool

definition left_join_admin :: "db \<Rightarrow> user_row \<Rightarrow> all_users_row" where
  \<comment> \<open>\<^verbatim>\<open>from public.users u left join public.admin_users au on u.id = au.id\<close> with
      \<^verbatim>\<open>coalesce(au.role, 'user')\<close> and \<^verbatim>\<open>au.id is not null\<close>; the key of
      \<^verbatim>\<open>admin_users\<close> gives each user at most one partner.\<close>
  "left_join_admin st u =
     \<lparr>row_id = u_id u, row_email = email u, row_full_name = full_name u,
      row_avatar_url = avatar_url u, row_phone = phone u, row_created_at = created_at u,
      row_last_sign_in_at = last_sign_in_at u, row_is_active = is_active u,
      admin_role = (case admin_users st (u_id u) of
                      None \<Rightarrow> ''user''
                    | Some a \<Rightarrow> (case role a of None \<Rightarrow> ''user'' | Some r \<Rightarrow> r)),
      is_admin = (admin_users st (u_id u) \<noteq> None)\<rparr>"

definition order_by_created_at_desc :: "all_users_row list \<Rightarrow> all_users_row list" where
  \<comment> \<open>\<^verbatim>\<open>order by u.created_at desc\<close>; rows of equal time stay in table order, one of
      the orders SQL allows.\<close>
  "order_by_created_at_desc rows = sort_key (\<lambda>r. - row_created_at r) rows"

text \<open>
  The procedure is declared \<^verbatim>\<open>returns table (id uuid, ...)\<close>, which makes \<^verbatim>\<open>id\<close>
  a variable of its body, and its authorization check reads
  \<^verbatim>\<open>select 1 from public.admin_users where id = auth.uid() and role in (...)\<close> with
  \<^verbatim>\<open>id\<close> unqualified. What that name means is the server's setting
  \<^verbatim>\<open>plpgsql.variable_conflict\<close> (the body has no directive of its own): by default
  the reference is an error; with \<^verbatim>\<open>use_variable\<close> it is the output variable,
  which is NULL at that point, so no row matches; with \<^verbatim>\<open>use_column\<close> it is the
  column of \<^verbatim>\<open>admin_users\<close>. The query after the check qualifies every column.
\<close>

datatype variable_conflict =
    vc_error
  | vc_use_variable
  | vc_use_column

definition get_all_users ::
  "variable_conflict \<Rightarrow> uuid option \<Rightarrow> db \<Rightarrow> pg_error + all_users_row list" where
  "get_all_users vc uid st =
     (case vc of
        vc_error \<Rightarrow> Inl ambiguous_column
      | vc_use_variable \<Rightarrow> Inl list_unauthorized
      | vc_use_column \<Rightarrow>
          if \<not> has_role st uid [''admin'', ''super_admin''] then Inl list_unauthorized
          else Inr (order_by_created_at_desc (map (left_join_admin st) (users st))))"

section \<open>The admin page\<close>

text \<open>
  \<^verbatim>\<open>src/app/admin/users/page.tsx\<close> loads the list of \<^verbatim>\<open>fetchAdminUsers\<close> with
  a query and keeps it in \<^verbatim>\<open>adminUsers\<close> (undefined unless the query has
  succeeded, here \<open>None\<close>). While the query runs the page renders a spinner, after
  a failure an error notice, and only after a success the view with the search field
  and the promote dialog, whose handlers are \<^verbatim>\<open>handleSearch\<close> and
  \<^verbatim>\<open>handlePromote\<close>.
\<close>

record profile =
  p_email :: string
  p_full_name :: "string option"
  p_created_at :: timestamptz
  p_last_sign_in_at :: "timestamptz option"
  p_is_active :: bool

record admin_user_entry =
  entry_id :: uuid
  entry_role :: string
  entry_created_at :: timestamptz
  entry_user :: profile

definition shape_entry :: "all_users_row \<Rightarrow> admin_user_entry" where
  "shape_entry r =
     \<lparr>entry_id = row_id r, entry_role = admin_role r, entry_created_at = row_created_at r,
      entry_user = \<lparr>p_email = row_email r, p_full_name = row_full_name r,
        p_created_at = row_created_at r, p_last_sign_in_at = row_last_sign_in_at r,
        p_is_active = row_is_active r\<rparr>\<rparr>"

definition fetchAdminUsers ::
  "variable_conflict \<Rightarrow> uuid option \<Rightarrow> db \<Rightarrow> admin_user_entry list option" where
  \<comment> \<open>\<open>None\<close>: the function throws "Failed to fetch users", which it does when the
      procedure returns an error.\<close>
  "fetchAdminUsers vc uid st =
     (case get_all_users vc uid st of Inl _ \<Rightarrow> None | Inr rows \<Rightarrow> Some (map shape_entry rows))"

datatype 'a query_result =
    query_loading
  | query_error
  | query_data 'a

definition query_settled :: "'a option \<Rightarrow> 'a query_result" where
  \<comment> \<open>The result of the query once its function has thrown or returned.\<close>
  "query_settled res = (case res of None \<Rightarrow> query_error | Some d \<Rightarrow> query_data d)"



record search_hit =
  hit_id :: uuid
  hit_email :: "string option"
  hit_created_at :: "timestamptz option"

definition searchUsers :: "(string \<Rightarrow> search_hit list option) \<Rightarrow> string \<Rightarrow> search_hit list" where
  \<comment> \<open>\<open>search_api\<close> is the request to \<^verbatim>\<open>/api/admin/users/search\<close>: \<open>None\<close> when the
      response is not ok or the request throws, which the function turns into no hits.\<close>
  "searchUsers search_api q =
     (if q = [] \<or> length q < 3 then []
      else case search_api q of None \<Rightarrow> [] | Some us \<Rightarrow> us)"

definition handleSearch ::
  "(string \<Rightarrow> search_hit list option) \<Rightarrow> admin_user_entry list option \<Rightarrow> string \<Rightarrow> search_hit list" where
  \<comment> \<open>The value the handler stores in \<^verbatim>\<open>searchResults\<close>.\<close>
  "handleSearch search_api adminUsers q =
     (if length q < 3 then []
      else
        let found = searchUsers search_api q;
            existingAdminIds = (case adminUsers of None \<Rightarrow> [] | Some es \<Rightarrow> map entry_id es)
        in filter (\<lambda>u. hit_id u \<notin> set existingAdminIds) found)"

definition lower_char :: "char \<Rightarrow> char" where
  "lower_char c =
     (let n = (of_char c :: nat) in if 65 \<le> n \<and> n \<le> 90 then char_of (n + 32) else c)"

fun is_prefix :: "'a list \<Rightarrow> 'a list \<Rightarrow> bool" where
  "is_prefix [] ys = True"
| "is_prefix (x # xs) [] = False"
| "is_prefix (x # xs) (y # ys) = (x = y \<and> is_prefix xs ys)"

fun is_infix :: "'a list \<Rightarrow> 'a list \<Rightarrow> bool" where
  "is_infix q [] = (q = [])"
| "is_infix q (y # ys) = (is_prefix q (y # ys) \<or> is_infix q ys)"

definition email_matches :: "string \<Rightarrow> string \<Rightarrow> bool" where
  "email_matches q e = is_infix (map lower_char q) (map lower_char e)"

definition search_directory :: "db \<Rightarrow> string \<Rightarrow> search_hit list option" where
  \<comment> \<open>Modelled from the spec: the route \<^verbatim>\<open>/api/admin/users/search\<close> is missing; the
      spec has it return the "Users whose email matches the query (case-insensitive
      substring/prefix match)".\<close>
  "search_directory st q =
     Some (map (\<lambda>u. \<lparr>hit_id = u_id u, hit_email = Some (email u),
                      hit_created_at = Some (created_at u)\<rparr>)
            (filter (\<lambda>u. email_matches q (email u)) (users st)))"

definition page_search ::
  "(string \<Rightarrow> search_hit list option) \<Rightarrow> admin_user_entry list query_result \<Rightarrow> string \<Rightarrow>
     search_hit list option" where
  \<comment> \<open>What typing \<open>q\<close> into the search field gives: the field exists only in the
      view that is rendered after the query has succeeded, and there \<^verbatim>\<open>adminUsers\<close>
      is the loaded list. \<open>None\<close>: there is no field to type into.\<close>
  "page_search search_api query q =
     (case query of
        query_data es \<Rightarrow> Some (handleSearch search_api (Some es) q)
      | _ \<Rightarrow> None)"

definition currentUserRole :: "admin_user_entry list option \<Rightarrow> uuid \<Rightarrow> string option" where
  \<comment> \<open>\<^verbatim>\<open>adminUsers?.find(au => au.id === user.id)?.role\<close>\<close>
  "currentUserRole adminUsers me =
     (case adminUsers of
        None \<Rightarrow> None
      | Some es \<Rightarrow> (case find (\<lambda>au. entry_id au = me) es of None \<Rightarrow> None | Some au \<Rightarrow> Some (entry_role au)))"

datatype promote_outcome =
    no_user
  | not_super_admin
  | insert_failed pg_error
  | promoted

definition handlePromote ::
  "(string option \<Rightarrow> bool) \<Rightarrow> timestamptz \<Rightarrow> bool \<Rightarrow> uuid option \<Rightarrow> admin_user_entry list option \<Rightarrow>
     db \<Rightarrow> uuid \<Rightarrow> string \<Rightarrow> promote_outcome \<times> db" where
  \<comment> \<open>The modal's promote: a check against the cached list, a plain insert into
      \<^verbatim>\<open>admin_users\<close>, then an insert into the audit log whose failure (\<open>audit_ok\<close>
      false) is only logged. The row-level security policies of \<^verbatim>\<open>admin_users\<close>
      belong to that earlier migration too and are not modelled.\<close>
  "handlePromote role_ok now audit_ok user adminUsers st userId r =
     (case user of
        None \<Rightarrow> (no_user, st)
      | Some me \<Rightarrow>
          if currentUserRole adminUsers me \<noteq> Some ''super_admin'' then (not_super_admin, st)
          else (case insert_admin_users role_ok now st userId (Some r) (Some me) of
                  Inl adminError \<Rightarrow> (insert_failed adminError, st)
                | Inr st' \<Rightarrow>
                    (promoted,
                     if audit_ok
                     then st'\<lparr>admin_audit_log := admin_audit_log st' @
                            [\<lparr>admin_id = me, action = ''promote_user'', target_type = ''user'',
                              target_id = userId, new_data_role = r\<rparr>]\<rparr>
                     else st')))"

definition alert_of :: "promote_outcome \<Rightarrow> string \<Rightarrow> string option" where
  \<comment> \<open>The text of the blocking alert, if any.\<close>
  "alert_of out r =
     (case out of
        no_user \<Rightarrow> None
      | not_super_admin \<Rightarrow> Some ''Only super admins can promote users to admin roles.''
      | insert_failed _ \<Rightarrow> Some ''Error promoting user. Please try again.''
      | promoted \<Rightarrow> Some (''User successfully promoted to '' @
                    (if r = ''super_admin'' then ''Super Admin'' else ''Admin'') @ ''!''))"

section \<open>The HTTP endpoints\<close>

text \<open>
  The route handlers read a JSON body, validate it and forward it to a stored
  procedure. The body is the value that \<^verbatim>\<open>request.json()\<close> returns, after
  parsing: a number is the double the parser produced, given by its exact value or as
  an infinity (a literal too small for a double has become zero by then, one too large
  an infinity). The procedure call is a parameter of the handler, so that a response
  which does not depend on it was produced without it.
\<close>

datatype js_number =
    js_finite rat
  | js_infinity

datatype json =
    JNull
  | JBool bool
  | JNum js_number
  | JStr string
  | JArr "json list"
  | JObj "(string \<times> json) list"

fun get_prop :: "json \<Rightarrow> string \<Rightarrow> json option" where
  \<comment> \<open>A property read by destructuring; \<open>None\<close> is \<^verbatim>\<open>undefined\<close>.\<close>
  "get_prop (JObj kvs) k = map_of kvs k"
| "get_prop _ k = None"

fun truthy :: "json option \<Rightarrow> bool" where
  "truthy None = False"
| "truthy (Some JNull) = False"
| "truthy (Some (JBool b)) = b"
| "truthy (Some (JNum (js_finite n))) = (n \<noteq> 0)"
| "truthy (Some (JNum js_infinity)) = True"
| "truthy (Some (JStr s)) = (s \<noteq> [])"
| "truthy (Some (JArr _)) = True"
| "truthy (Some (JObj _)) = True"

fun included_role :: "json option \<Rightarrow> string option" where
  \<comment> \<open>\<^verbatim>\<open>['user', 'admin', 'super_admin'].includes(role)\<close>: only a string is equal
      to one of the three.\<close>
  "included_role (Some (JStr s)) =
     (if s \<in> set [''user'', ''admin'', ''super_admin''] then Some s else None)"
| "included_role _ = None"

datatype 'e rpc_outcome =
    rpc_threw
  | rpc_returned "'e option"

datatype 'e body =
    error_body string
  | error_message_of 'e
  | success_body string

type_synonym 'e response = "nat \<times> 'e body"

definition POST_promote ::
  "(json \<Rightarrow> string \<Rightarrow> 'e rpc_outcome) \<Rightarrow> json option \<Rightarrow> 'e response" where
  \<comment> \<open>\<open>request_json\<close> is \<open>None\<close> when \<^verbatim>\<open>request.json()\<close> throws; destructuring
      \<^verbatim>\<open>null\<close> throws as well. Every exception ends in the \<^verbatim>\<open>catch\<close>.\<close>
  "POST_promote rpc request_json =
     (case request_json of
        None \<Rightarrow> (500, error_body ''Internal server error'')
      | Some JNull \<Rightarrow> (500, error_body ''Internal server error'')
      | Some b \<Rightarrow>
          let userId = get_prop b ''userId''; r = get_prop b ''role'' in
          if \<not> truthy userId \<or> \<not> truthy r then (400, error_body ''Missing userId or role'')
          else (case (userId, included_role r) of
                  (Some u, Some new_role) \<Rightarrow>
                    (case rpc u new_role of
                       rpc_threw \<Rightarrow> (500, error_body ''Internal server error'')
                     | rpc_returned (Some e) \<Rightarrow> (400, error_message_of e)
                     | rpc_returned None \<Rightarrow>
                         (200, success_body (''User successfully promoted to '' @ new_role)))
                | _ \<Rightarrow> (400, error_body ''Invalid role. Must be user, admin, or super_admin'')))"

definition POST_demote :: "(json \<Rightarrow> 'e rpc_outcome) \<Rightarrow> json option \<Rightarrow> 'e response" where
  "POST_demote rpc request_json =
     (case request_json of
        None \<Rightarrow> (500, error_body ''Internal server error'')
      | Some JNull \<Rightarrow> (500, error_body ''Internal server error'')
      | Some b \<Rightarrow>
          (case get_prop b ''userId'' of
             None \<Rightarrow> (400, error_body ''Missing userId'')
           | Some u \<Rightarrow>
               if \<not> truthy (Some u) then (400, error_body ''Missing userId'')
               else (case rpc u of
                       rpc_threw \<Rightarrow> (500, error_body ''Internal server error'')
                     | rpc_returned (Some e) \<Rightarrow> (400, error_message_of e)
                     | rpc_returned None \<Rightarrow>
                         (200, success_body ''User successfully demoted to regular user''))))"

text \<open>Two procedure calls that return without error.\<close>

definition promote_rpc_ok :: "json \<Rightarrow> string \<Rightarrow> pg_error rpc_outcome" where
  "promote_rpc_ok u r = rpc_returned None"

definition demote_rpc_ok :: "json \<Rightarrow> pg_error rpc_outcome" where
  "demote_rpc_ok u = rpc_returned None"

section \<open>A small installation\<close>

text \<open>Three registered users; the first one holds \<^verbatim>\<open>super_admin\<close>.\<close>

definition mk_user :: "uuid \<Rightarrow> string \<Rightarrow> timestamptz \<Rightarrow> user_row" where
  "mk_user i e t =
     \<lparr>u_id = i, email = e, full_name = None, avatar_url = None, phone = None,
      created_at = t, updated_at = t, last_sign_in_at = None, is_active = True,
      metadata = ''{}''\<rparr>"

definition root_row :: admin_row where
  "root_row = \<lparr>role = Some ''super_admin'', au_created_at = 5, au_updated_at = 5, created_by = None\<rparr>"

definition db0 :: db where
  "db0 = \<lparr>users = [mk_user 1 ''root@x.com'' 10, mk_user 2 ''abcuser@x.com'' 20,
                    mk_user 3 ''xyz@x.com'' 30],
          admin_users = [1 \<mapsto> root_row],
          admin_audit_log = []\<rparr>"

text \<open>The same installation after the second user was made an \<^verbatim>\<open>admin\<close>.\<close>

definition db1 :: db where
  "db1 = db0\<lparr>admin_users := [1 \<mapsto> root_row, 2 \<mapsto>
            \<lparr>role = Some ''admin'', au_created_at = 25, au_updated_at = 25, created_by = Some 1\<rparr>]\<rparr>"

text \<open>The list the page holds when it has loaded the three users of \<open>db0\<close>.\<close>

definition loaded0 :: "admin_user_entry list" where
  "loaded0 =
     [\<lparr>entry_id = 3, entry_role = ''user'', entry_created_at = 30,
       entry_user = \<lparr>p_email = ''xyz@x.com'', p_full_name = None, p_created_at = 30,
         p_last_sign_in_at = None, p_is_active = True\<rparr>\<rparr>,
      \<lparr>entry_id = 2, entry_role = ''user'', entry_created_at = 20,
       entry_user = \<lparr>p_email = ''abcuser@x.com'', p_full_name = None, p_created_at = 20,
         p_last_sign_in_at = None, p_is_active = True\<rparr>\<rparr>,
      \<lparr>entry_id = 1, entry_role = ''super_admin'', entry_created_at = 10,
       entry_user = \<lparr>p_email = ''root@x.com'', p_full_name = None, p_created_at = 10,
         p_last_sign_in_at = None, p_is_active = True\<rparr>\<rparr>]"

section \<open>Facts about the small installation\<close>

lemma has_role_db0_root: "has_role db0 (Some 1) [''super_admin'']"
  by (simp add: has_role_def db0_def root_row_def)

lemma has_role_db0_other: "\<not> has_role db0 (Some 2) rs" "\<not> has_role db0 (Some 3) rs"
  by (simp_all add: has_role_def db0_def)

lemma user_exists_db0:
  "user_exists db0 1" "user_exists db0 2" "user_exists db0 3" "\<not> user_exists db0 4"
  by (simp_all add: user_exists_def db0_def mk_user_def)

lemma has_role_db1:
  "has_role db1 (Some 1) [''super_admin'']" "\<not> has_role db1 (Some 2) [''super_admin'']"
  by (simp_all add: has_role_def db1_def db0_def root_row_def)

lemma admin_users_db0: "admin_users db0 2 = None" "admin_users db0 3 = None"
  by (simp_all add: db0_def)

section \<open>Authorization of the mutating operations\<close>

lemma promote_needs_super_admin:
  "\<not> has_role st uid [''super_admin''] \<Longrightarrow>
     promote_user_to_admin role_ok now uid st t r = Inl promote_unauthorized"
  by (simp add: promote_user_to_admin_def)

lemma demote_needs_super_admin:
  "\<not> has_role st uid [''super_admin''] \<Longrightarrow>
     demote_admin_to_user uid st t = Inl demote_unauthorized"
  by (simp add: demote_admin_to_user_def)

text \<open>
  C2. A caller who holds no \<^verbatim>\<open>super_admin\<close> row (a caller with no row, with an
  \<^verbatim>\<open>admin\<close> row, or no signed-in caller at all) gets the authorization error from
  \<^verbatim>\<open>promote_user_to_admin\<close> and from \<^verbatim>\<open>demote_admin_to_user\<close>, for every
  target and every role (a NULL role too), and both tables are as they were.
\<close>

theorem C2_unauthorized:
  assumes "\<not> has_role st uid [''super_admin'']"
  shows "promote_user_to_admin role_ok now uid st t r = Inl promote_unauthorized
       \<and> demote_admin_to_user uid st t = Inl demote_unauthorized
       \<and> state_after st (promote_user_to_admin role_ok now uid st t r) = st
       \<and> state_after st (demote_admin_to_user uid st t) = st"
  using assms
  by (simp add: promote_needs_super_admin demote_needs_super_admin state_after_def)

theorem C2_unauthorized_witness:
  "\<not> has_role db0 (Some 2) [''super_admin'']
   \<and> promote_user_to_admin admin_users_role_check 40 (Some 2) db0 3 (Some ''admin'') = Inl promote_unauthorized
   \<and> demote_admin_to_user (Some 2) db0 3 = Inl demote_unauthorized
   \<and> state_after db0 (promote_user_to_admin admin_users_role_check 40 (Some 2) db0 3 (Some ''admin'')) = db0
   \<and> state_after db0 (demote_admin_to_user (Some 2) db0 3) = db0"
  using C2_unauthorized [of db0 "Some 2" admin_users_role_check 40 3 "Some ''admin''"]
  by (simp add: has_role_db0_other state_after_def)

section \<open>The untouchable super_admin\<close>

text \<open>
  C1, as the code has it. When the target \<open>U\<close> holds a \<^verbatim>\<open>super_admin\<close> row, both
  procedures fail for every caller and every role and leave the tables as they were.
  The error is the untouchable one when the caller holds \<^verbatim>\<open>super_admin\<close> (and,
  for a promotion, \<open>U\<close> is in \<^verbatim>\<open>public.users\<close>); the caller's own authorization
  is checked first, so any other caller gets the authorization error, and a promotion
  by a \<^verbatim>\<open>super_admin\<close> of a target missing from \<^verbatim>\<open>public.users\<close> gets
  "User does not exist".
\<close>

theorem C1_super_admin_untouchable:
  assumes "has_role st (Some U) [''super_admin'']"
  shows "promote_user_to_admin role_ok now uid st U r =
           Inl (if \<not> has_role st uid [''super_admin''] then promote_unauthorized
                else if \<not> user_exists st U then user_not_found
                else untouchable)
       \<and> demote_admin_to_user uid st U =
           Inl (if \<not> has_role st uid [''super_admin''] then demote_unauthorized
                else untouchable)
       \<and> state_after st (promote_user_to_admin role_ok now uid st U r) = st
       \<and> state_after st (demote_admin_to_user uid st U) = st"
  using assms
  by (simp add: promote_user_to_admin_def demote_admin_to_user_def state_after_def)

theorem C1_super_admin_untouchable_witness:
  "has_role db0 (Some 1) [''super_admin'']
   \<and> promote_user_to_admin admin_users_role_check 40 (Some 1) db0 1 (Some ''admin'') = Inl untouchable
   \<and> demote_admin_to_user (Some 1) db0 1 = Inl untouchable
   \<and> state_after db0 (promote_user_to_admin admin_users_role_check 40 (Some 1) db0 1 (Some ''admin'')) = db0
   \<and> state_after db0 (demote_admin_to_user (Some 1) db0 1) = db0"
  using C1_super_admin_untouchable [of db0 1 admin_users_role_check 40 "Some 1" "Some ''admin''"]
  by (simp add: has_role_db0_root user_exists_db0 state_after_def)

text \<open>The claim as stated, "for every caller", fails: the second user holds no role, and
  their attempts on the \<^verbatim>\<open>super_admin\<close> end in the authorization error.\<close>

theorem C1_counterexample:
  "has_role db0 (Some 1) [''super_admin'']
   \<and> promote_user_to_admin admin_users_role_check 40 (Some 2) db0 1 (Some ''admin'') \<noteq> Inl untouchable
   \<and> demote_admin_to_user (Some 2) db0 1 \<noteq> Inl untouchable"
  by (simp add: promote_user_to_admin_def demote_admin_to_user_def has_role_def db0_def root_row_def)

section \<open>Demotion\<close>

text \<open>
  C7. For a \<^verbatim>\<open>super_admin\<close> caller and a target that holds no
  \<^verbatim>\<open>super_admin\<close> row, \<^verbatim>\<open>demote_admin_to_user\<close> succeeds, a second call on the
  resulting state succeeds as well and returns that same state, in which the target has
  no row; and when the target had no row to begin with, the call succeeds and changes
  nothing.
\<close>

theorem C7_demote_idempotent:
  assumes "has_role st uid [''super_admin'']"
      and "\<not> has_role st (Some t) [''super_admin'']"
  shows "\<exists>st1. demote_admin_to_user uid st t = Inr st1
            \<and> demote_admin_to_user uid st1 t = Inr st1
            \<and> admin_users st1 t = None
            \<and> (admin_users st t = None \<longrightarrow> st1 = st)"
proof -
  let ?st1 = "delete_admin_users st t"
  have sa: "has_role ?st1 uid [''super_admin'']"
    using assms by (auto simp: has_role_def delete_admin_users_def split: option.splits)
  have nt: "\<not> has_role ?st1 (Some t) [''super_admin'']"
    by (simp add: has_role_def delete_admin_users_def)
  have idem: "delete_admin_users ?st1 t = ?st1"
    by (simp add: delete_admin_users_def)
  have first: "demote_admin_to_user uid st t = Inr ?st1"
    using assms by (simp add: demote_admin_to_user_def)
  have second: "demote_admin_to_user uid ?st1 t = Inr ?st1"
    using sa nt idem by (simp add: demote_admin_to_user_def)
  have gone: "admin_users ?st1 t = None"
    by (simp add: delete_admin_users_def)
  have noop: "admin_users st t = None \<longrightarrow> ?st1 = st"
    by (auto simp: delete_admin_users_def fun_upd_idem)
  from first second gone noop show ?thesis
    by (intro exI [of _ ?st1] conjI)
qed

theorem C7_demote_idempotent_witness:
  "has_role db1 (Some 1) [''super_admin'']
   \<and> \<not> has_role db1 (Some 2) [''super_admin'']
   \<and> (\<exists>st1. demote_admin_to_user (Some 1) db1 2 = Inr st1
            \<and> demote_admin_to_user (Some 1) st1 2 = Inr st1
            \<and> admin_users st1 2 = None)
   \<and> admin_users db0 3 = None
   \<and> demote_admin_to_user (Some 1) db0 3 = Inr db0"
proof -
  have none: "admin_users db0 3 = None"
    by (simp add: db0_def)
  from C7_demote_idempotent [of db0 "Some 1" 3] has_role_db0_root has_role_db0_other(2) none
  have "demote_admin_to_user (Some 1) db0 3 = Inr db0"
    by auto
  with C7_demote_idempotent [of db1 "Some 1" 2] has_role_db1 none show ?thesis
    by blast
qed

section \<open>The roles stored in the registry\<close>




text \<open>What a successful write leaves behind: the row of the target carries the role that
  was asked for, the table has accepted that role, and no other row has changed.\<close>

lemma upsert_result:
  assumes "upsert_admin_users role_ok now st t r c = Inr st'"
  shows "role_ok r \<and> map_option role (admin_users st' t) = Some r
       \<and> map_option created_by (admin_users st' t) = Some c
       \<and> users st' = users st
       \<and> (\<forall>i. i \<noteq> t \<longrightarrow> admin_users st' i = admin_users st i)"
  using assms
  by (cases "admin_users st t")
     (auto simp: upsert_admin_users_def insert_admin_users_def split: if_splits)

lemma upsert_succeeds:
  assumes "role_ok r" and "user_exists st t"
  shows "\<exists>st'. upsert_admin_users role_ok now st t r c = Inr st'"
  using assms
  by (cases "admin_users st t") (simp_all add: upsert_admin_users_def insert_admin_users_def)


lemma promote_reaches_validation:
  assumes "has_role st uid [''super_admin'']" and "user_exists st t"
      and "\<not> has_role st (Some t) [''super_admin'']"
  shows "promote_user_to_admin role_ok now uid st t r =
           (if (case r of None \<Rightarrow> False | Some s \<Rightarrow> s \<notin> set [''user'', ''admin'', ''super_admin''])
            then Inl invalid_role
            else upsert_admin_users role_ok now st t r uid)"
  using assms by (simp add: promote_user_to_admin_def)









section \<open>Validation of the requested role\<close>

lemma upsert_not_raised: "upsert_admin_users role_ok now st i r c \<noteq> Inl (Raised m)"
  by (simp add: upsert_admin_users_def insert_admin_users_def split: option.splits)

lemma promote_invalid_role_only_if:
  assumes "promote_user_to_admin role_ok now uid st t r = Inl invalid_role"
  shows "\<exists>s. r = Some s \<and> s \<notin> set [''user'', ''admin'', ''super_admin'']"
proof (rule ccontr)
  assume "\<not> (\<exists>s. r = Some s \<and> s \<notin> set [''user'', ''admin'', ''super_admin''])"
  then have "\<not> (case r of None \<Rightarrow> False | Some s \<Rightarrow> s \<notin> set [''user'', ''admin'', ''super_admin''])"
    by (cases r) simp_all
  with assms have "upsert_admin_users role_ok now st t r uid = Inl invalid_role"
    by (simp add: promote_user_to_admin_def split: if_splits)
  then show False by (simp add: upsert_not_raised)
qed

lemma promote_narrow_reaches_validation:
  assumes "has_role st uid [''super_admin'']" and "user_exists st t"
      and "\<not> has_role st (Some t) [''super_admin'']"
  shows "promote_user_to_admin_narrow role_ok now uid st t r =
           (if (case r of None \<Rightarrow> False | Some s \<Rightarrow> s \<notin> set [''user'', ''admin''])
            then Inl invalid_role_narrow
            else upsert_admin_users role_ok now st t r uid)"
  using assms by (simp add: promote_user_to_admin_narrow_def)

text \<open>A NULL role is no member of the list, yet the validation raises nothing for it:
  the comparison is NULL and the statement after the \<^verbatim>\<open>if\<close> runs.\<close>

lemma promote_null_role_skips_validation:
  assumes "has_role st uid [''super_admin'']" and "user_exists st t"
      and "\<not> has_role st (Some t) [''super_admin'']"
  shows "promote_user_to_admin role_ok now uid st t None =
           upsert_admin_users role_ok now st t None uid"
  using assms by (simp add: promote_reaches_validation)

text \<open>
  C5, as the code has it. In \<^verbatim>\<open>promote_user_to_admin\<close> of
  \<^verbatim>\<open>users-schema-ultra-safe.sql\<close> the validation is the fourth check. The procedure
  raises the invalid-role error only for a role that is a text outside \<^verbatim>\<open>user\<close>,
  \<^verbatim>\<open>admin\<close>, \<^verbatim>\<open>super_admin\<close>. When the three earlier checks pass (the caller
  holds \<^verbatim>\<open>super_admin\<close>, the target is in \<^verbatim>\<open>public.users\<close> and holds no
  \<^verbatim>\<open>super_admin\<close> row), it raises that error for a text \<open>s\<close> exactly when \<open>s\<close>
  is outside the three, and a promotion to \<^verbatim>\<open>super_admin\<close> passes the
  validation and succeeds, storing that role, when the table accepts it. The procedure
  of the same name in the users-management migration validates against \<^verbatim>\<open>user\<close>
  and \<^verbatim>\<open>admin\<close> only: under the same conditions it raises its invalid-role error
  for a text \<open>s\<close> exactly when \<open>s\<close> is outside these two, so also for
  \<^verbatim>\<open>super_admin\<close>.
\<close>

theorem C5_invalid_role:
  "(promote_user_to_admin role_ok now uid st t r = Inl invalid_role
      \<longrightarrow> (\<exists>s'. r = Some s' \<and> s' \<notin> set [''user'', ''admin'', ''super_admin'']))
   \<and> (has_role st uid [''super_admin''] \<and> user_exists st t
        \<and> \<not> has_role st (Some t) [''super_admin'']
      \<longrightarrow> (promote_user_to_admin role_ok now uid st t (Some s) = Inl invalid_role
             \<longleftrightarrow> s \<notin> set [''user'', ''admin'', ''super_admin'']))
   \<and> (has_role st uid [''super_admin''] \<and> user_exists st t
        \<and> \<not> has_role st (Some t) [''super_admin''] \<and> role_ok (Some ''super_admin'')
      \<longrightarrow> (\<exists>st'. promote_user_to_admin role_ok now uid st t (Some ''super_admin'') = Inr st'
                 \<and> map_option role (admin_users st' t) = Some (Some ''super_admin'')))
   \<and> (has_role st uid [''super_admin''] \<and> user_exists st t
        \<and> \<not> has_role st (Some t) [''super_admin'']
      \<longrightarrow> (promote_user_to_admin_narrow role_ok now uid st t (Some s) = Inl invalid_role_narrow
             \<longleftrightarrow> s \<notin> set [''user'', ''admin'']))"
proof (intro conjI impI)
  assume "promote_user_to_admin role_ok now uid st t r = Inl invalid_role"
  then show "\<exists>s'. r = Some s' \<and> s' \<notin> set [''user'', ''admin'', ''super_admin'']"
    by (rule promote_invalid_role_only_if)
next
  assume "has_role st uid [''super_admin''] \<and> user_exists st t
        \<and> \<not> has_role st (Some t) [''super_admin'']"
  then show "promote_user_to_admin role_ok now uid st t (Some s) = Inl invalid_role
             \<longleftrightarrow> s \<notin> set [''user'', ''admin'', ''super_admin'']"
    by (simp add: promote_reaches_validation upsert_not_raised)
next
  assume a: "has_role st uid [''super_admin''] \<and> user_exists st t
        \<and> \<not> has_role st (Some t) [''super_admin''] \<and> role_ok (Some ''super_admin'')"
  then have eq: "promote_user_to_admin role_ok now uid st t (Some ''super_admin'') =
      upsert_admin_users role_ok now st t (Some ''super_admin'') uid"
    by (simp add: promote_reaches_validation)
  from a obtain st' where
    up: "upsert_admin_users role_ok now st t (Some ''super_admin'') uid = Inr st'"
    using upsert_succeeds [of role_ok "Some ''super_admin''" st t now uid] by blast
  from upsert_result [OF up]
  have "map_option role (admin_users st' t) = Some (Some ''super_admin'')" by simp
  with eq up
  show "\<exists>st'. promote_user_to_admin role_ok now uid st t (Some ''super_admin'') = Inr st'
                 \<and> map_option role (admin_users st' t) = Some (Some ''super_admin'')"
    by simp
next
  assume "has_role st uid [''super_admin''] \<and> user_exists st t
        \<and> \<not> has_role st (Some t) [''super_admin'']"
  then show "promote_user_to_admin_narrow role_ok now uid st t (Some s) = Inl invalid_role_narrow
             \<longleftrightarrow> s \<notin> set [''user'', ''admin'']"
    by (simp add: promote_narrow_reaches_validation upsert_not_raised)
qed

theorem C5_invalid_role_witness:
  "has_role db0 (Some 1) [''super_admin''] \<and> user_exists db0 2
   \<and> \<not> has_role db0 (Some 2) [''super_admin'']
   \<and> promote_user_to_admin admin_users_role_check 40 (Some 1) db0 2 (Some ''owner'') = Inl invalid_role
   \<and> promote_user_to_admin admin_users_role_check 40 (Some 1) db0 2 (Some ''admin'') \<noteq> Inl invalid_role
   \<and> (\<exists>st'. promote_user_to_admin admin_users_role_check 40 (Some 1) db0 2 (Some ''super_admin'') = Inr st'
          \<and> map_option role (admin_users st' 2) = Some (Some ''super_admin''))
   \<and> promote_user_to_admin_narrow admin_users_role_check 40 (Some 1) db0 2 (Some ''super_admin'')
       = Inl invalid_role_narrow
   \<and> promote_user_to_admin_narrow admin_users_role_check 40 (Some 1) db0 2 (Some ''admin'')
       \<noteq> Inl invalid_role_narrow"
  using C5_invalid_role [of admin_users_role_check 40 "Some 1" db0 2 "Some ''owner''" "''owner''"]
    C5_invalid_role [of admin_users_role_check 40 "Some 1" db0 2 "Some ''admin''" "''admin''"]
    C5_invalid_role [of admin_users_role_check 40 "Some 1" db0 2 "Some ''admin''" "''super_admin''"]
  by (simp add: has_role_db0_root has_role_db0_other user_exists_db0 admin_users_role_check_def)

text \<open>The unconditional equivalence fails twice over. A caller without
  \<^verbatim>\<open>super_admin\<close> who asks for a role outside the three gets the authorization error,
  not the invalid-role one: the order of the checks. And a NULL role, which is none of
  the three, from a \<^verbatim>\<open>super_admin\<close> for a registered target is not answered with the
  invalid-role error either.\<close>

theorem C5_counterexample:
  "''owner'' \<notin> set [''user'', ''admin'', ''super_admin'']
   \<and> promote_user_to_admin admin_users_role_check 40 (Some 2) db0 3 (Some ''owner'') \<noteq> Inl invalid_role
   \<and> promote_user_to_admin admin_users_role_check 40 (Some 1) db0 2 None \<noteq> Inl invalid_role"
  by (simp add: promote_needs_super_admin has_role_db0_other promote_reaches_validation
      has_role_db0_root user_exists_db0 upsert_not_raised)

section \<open>Promotion in two steps\<close>

text \<open>
  C8. Let \<open>U\<close> be in \<^verbatim>\<open>public.users\<close> without a row in the registry, and let the
  callers \<open>c1\<close> and \<open>c2\<close> hold \<^verbatim>\<open>super_admin\<close>. The promotion of \<open>U\<close> to
  \<^verbatim>\<open>admin\<close> by \<open>c1\<close> and then to \<^verbatim>\<open>super_admin\<close> by \<open>c2\<close> both succeed;
  afterwards the row of \<open>U\<close> has role \<^verbatim>\<open>super_admin\<close>, creator \<open>c2\<close>, the
  creation time of the first call and the update time of the second; \<open>c1\<close> and
  \<open>c2\<close> still hold \<^verbatim>\<open>super_admin\<close>; every further promotion of \<open>U\<close> by
  \<open>c1\<close> or \<open>c2\<close>, to any role, fails with the untouchable error; and a further
  promotion of \<open>U\<close> by anyone fails, with the untouchable error whenever the caller
  holds \<^verbatim>\<open>super_admin\<close>.
\<close>

theorem C8_promote_twice:
  assumes "user_exists st U" and "admin_users st U = None"
      and "has_role st c1 [''super_admin'']" and "has_role st c2 [''super_admin'']"
      and "role_ok (Some ''admin'')" and "role_ok (Some ''super_admin'')"
  shows "\<exists>st1 st2.
           promote_user_to_admin role_ok n1 c1 st U (Some ''admin'') = Inr st1
         \<and> promote_user_to_admin role_ok n2 c2 st1 U (Some ''super_admin'') = Inr st2
         \<and> admin_users st2 U =
             Some \<lparr>role = Some ''super_admin'', au_created_at = n1, au_updated_at = n2, created_by = c2\<rparr>
         \<and> has_role st2 c1 [''super_admin''] \<and> has_role st2 c2 [''super_admin'']
         \<and> (\<forall>n3 r. promote_user_to_admin role_ok n3 c1 st2 U r = Inl untouchable)
         \<and> (\<forall>n3 r. promote_user_to_admin role_ok n3 c2 st2 U r = Inl untouchable)
         \<and> (\<forall>c3 n3 r. \<exists>e. promote_user_to_admin role_ok n3 c3 st2 U r = Inl e
                \<and> (has_role st2 c3 [''super_admin''] \<longrightarrow> e = untouchable))"
proof -
  let ?row1 = "\<lparr>role = Some ''admin'', au_created_at = n1, au_updated_at = n1, created_by = c1\<rparr>"
  let ?st1 = "st\<lparr>admin_users := (admin_users st)(U \<mapsto> ?row1)\<rparr>"
  let ?row2 = "\<lparr>role = Some ''super_admin'', au_created_at = n1, au_updated_at = n2, created_by = c2\<rparr>"
  let ?st2 = "?st1\<lparr>admin_users := (admin_users ?st1)(U \<mapsto> ?row2)\<rparr>"
  have notU: "\<not> has_role st (Some U) rs" for rs
    using assms(2) by (simp add: has_role_def)
  have first: "promote_user_to_admin role_ok n1 c1 st U (Some ''admin'') = Inr ?st1"
    using assms notU
    by (simp add: promote_user_to_admin_def upsert_admin_users_def insert_admin_users_def)
  have c2_still: "has_role ?st1 c2 [''super_admin'']"
    using assms(2,4) by (auto simp: has_role_def split: option.splits)
  have ex1: "user_exists ?st1 U"
    using assms(1) by (simp add: user_exists_def)
  have not_sa1: "\<not> has_role ?st1 (Some U) [''super_admin'']"
    by (simp add: has_role_def)
  have second: "promote_user_to_admin role_ok n2 c2 ?st1 U (Some ''super_admin'') = Inr ?st2"
    using c2_still ex1 not_sa1 assms(6)
    by (simp add: promote_user_to_admin_def upsert_admin_users_def)
  have row: "admin_users ?st2 U = Some ?row2"
    by simp
  have ex2: "user_exists ?st2 U"
    using assms(1) by (simp add: user_exists_def)
  have sa2: "has_role ?st2 (Some U) [''super_admin'']"
    by (simp add: has_role_def)
  have third: "\<exists>e. promote_user_to_admin role_ok n3 c3 ?st2 U r = Inl e
                \<and> (has_role ?st2 c3 [''super_admin''] \<longrightarrow> e = untouchable)" for c3 n3 r
    using ex2 sa2 by (simp add: promote_user_to_admin_def)
  have still: "has_role ?st2 c [''super_admin'']" if "has_role st c [''super_admin'']" for c
    using that assms(2) by (auto simp: has_role_def split: option.splits)
  have again: "promote_user_to_admin role_ok n3 c ?st2 U r = Inl untouchable"
    if "has_role st c [''super_admin'']" for c n3 r
    using still [OF that] ex2 sa2 by (simp add: promote_user_to_admin_def)
  from first second row still [OF assms(3)] still [OF assms(4)]
    again [OF assms(3)] again [OF assms(4)] third
  show ?thesis
    by (intro exI [of _ ?st1] exI [of _ ?st2] conjI allI)
qed

theorem C8_promote_twice_witness:
  "user_exists db0 2 \<and> admin_users db0 2 = None
   \<and> has_role db0 (Some 1) [''super_admin'']
   \<and> admin_users_role_check (Some ''admin'') \<and> admin_users_role_check (Some ''super_admin'')
   \<and> (\<exists>st1 st2.
           promote_user_to_admin admin_users_role_check 40 (Some 1) db0 2 (Some ''admin'') = Inr st1
         \<and> promote_user_to_admin admin_users_role_check 50 (Some 1) st1 2 (Some ''super_admin'') = Inr st2
         \<and> admin_users st2 2 =
             Some \<lparr>role = Some ''super_admin'', au_created_at = 40, au_updated_at = 50, created_by = Some 1\<rparr>
         \<and> promote_user_to_admin admin_users_role_check 60 (Some 1) st2 2 (Some ''admin'') = Inl untouchable)"
proof -
  have h: "user_exists db0 2" "admin_users db0 2 = None" "has_role db0 (Some 1) [''super_admin'']"
    "admin_users_role_check (Some ''admin'')" "admin_users_role_check (Some ''super_admin'')"
    by (simp_all add: user_exists_db0 has_role_db0_root admin_users_role_check_def admin_users_db0)
  from C8_promote_twice [OF h(1) h(2) h(3) h(3) h(4) h(5), of 40 50]
  obtain st1 st2 where
    s: "promote_user_to_admin admin_users_role_check 40 (Some 1) db0 2 (Some ''admin'') = Inr st1"
      "promote_user_to_admin admin_users_role_check 50 (Some 1) st1 2 (Some ''super_admin'') = Inr st2"
      "admin_users st2 2 =
         Some \<lparr>role = Some ''super_admin'', au_created_at = 40, au_updated_at = 50, created_by = Some 1\<rparr>"
      and t: "\<forall>n3 r. promote_user_to_admin admin_users_role_check n3 (Some 1) st2 2 r = Inl untouchable"
    by blast
  from t have "promote_user_to_admin admin_users_role_check 60 (Some 1) st2 2 (Some ''admin'') = Inl untouchable"
    by blast
  with s h show ?thesis by blast
qed

section \<open>Listing users with their roles\<close>

lemma order_by_created_at_desc_mset: "mset (order_by_created_at_desc rows) = mset rows"
  by (simp add: order_by_created_at_desc_def)

lemma order_by_created_at_desc_set: "set (order_by_created_at_desc rows) = set rows"
  by (simp add: order_by_created_at_desc_def)

lemma order_by_created_at_desc_sorted:
  "sorted_wrt (\<lambda>a b. row_created_at b \<le> row_created_at a) (order_by_created_at_desc rows)"
proof -
  have "sorted (map (\<lambda>r. - row_created_at r) (order_by_created_at_desc rows))"
    unfolding order_by_created_at_desc_def by (rule sorted_sort_key)
  then show ?thesis by (simp add: sorted_map)
qed

text \<open>
  C4, on the code. With the server's default for \<^verbatim>\<open>plpgsql.variable_conflict\<close>,
  \<^verbatim>\<open>get_all_users\<close> fails with the ambiguous-column error for every caller and every
  state: the \<^verbatim>\<open>super_admin\<close> of the small installation gets no list, and a caller
  without a role gets this error and not the authorization error.
\<close>

theorem C4_get_all_users_ambiguous:
  "get_all_users vc_error uid st = Inl ambiguous_column
   \<and> has_role db0 (Some 1) [''admin'', ''super_admin'']
   \<and> get_all_users vc_error (Some 1) db0 = Inl ambiguous_column
   \<and> \<not> has_role db0 (Some 2) [''admin'', ''super_admin'']
   \<and> get_all_users vc_error (Some 2) db0 \<noteq> Inl list_unauthorized"
  by (simp add: get_all_users_def has_role_db0_other) (simp add: has_role_def db0_def root_row_def)

text \<open>With \<^verbatim>\<open>use_variable\<close> the check compares NULL and every caller is refused.\<close>

lemma get_all_users_use_variable: "get_all_users vc_use_variable uid st = Inl list_unauthorized"
  by (simp add: get_all_users_def)

text \<open>
  Only with \<^verbatim>\<open>use_column\<close>, where the name means the column as the author of the
  check had in mind, does the procedure do what its text sets out to do: it refuses a
  caller without an \<^verbatim>\<open>admin\<close> or \<^verbatim>\<open>super_admin\<close> row, and returns to any other
  caller one row for each row of \<^verbatim>\<open>public.users\<close> and no others, in descending
  order of \<^verbatim>\<open>created_at\<close>, with \<^verbatim>\<open>admin_role\<close> the role of the user's registry
  row, or \<^verbatim>\<open>user\<close> when there is none, and \<^verbatim>\<open>is_admin\<close> true exactly when there
  is one.
\<close>

lemma get_all_users_use_column:
  "(\<not> has_role st uid [''admin'', ''super_admin'']
      \<longrightarrow> get_all_users vc_use_column uid st = Inl list_unauthorized)
   \<and> (has_role st uid [''admin'', ''super_admin'']
      \<longrightarrow> (\<exists>rows. get_all_users vc_use_column uid st = Inr rows
             \<and> mset rows = image_mset (left_join_admin st) (mset (users st))
             \<and> sorted_wrt (\<lambda>a b. row_created_at b \<le> row_created_at a) rows))
   \<and> row_id (left_join_admin st u) = u_id u
   \<and> row_email (left_join_admin st u) = email u
   \<and> row_created_at (left_join_admin st u) = created_at u
   \<and> (admin_users st (u_id u) = None \<longrightarrow> admin_role (left_join_admin st u) = ''user'')
   \<and> (admin_users st (u_id u) = Some a \<and> role a = Some r \<longrightarrow> admin_role (left_join_admin st u) = r)
   \<and> is_admin (left_join_admin st u) = (admin_users st (u_id u) \<noteq> None)"
  by (simp add: get_all_users_def order_by_created_at_desc_mset
      order_by_created_at_desc_sorted left_join_admin_def)

lemma get_all_users_use_column_db1:
  "\<exists>rows. get_all_users vc_use_column (Some 2) db1 = Inr rows
         \<and> map row_id rows = [3, 2, 1]
         \<and> map admin_role rows = [''user'', ''admin'', ''super_admin'']
         \<and> map is_admin rows = [False, True, True]"
  by (simp add: has_role_def get_all_users_def order_by_created_at_desc_def left_join_admin_def
      db1_def db0_def mk_user_def root_row_def)

section \<open>Responses of the promote and demote endpoints\<close>

lemma included_role_Some:
  "included_role x = Some r \<longleftrightarrow> x = Some (JStr r) \<and> r \<in> set [''user'', ''admin'', ''super_admin'']"
  by (cases x rule: included_role.cases) auto

lemma POST_promote_no_body:
  "POST_promote rpc None = (500, error_body ''Internal server error'')"
  "POST_promote rpc (Some JNull) = (500, error_body ''Internal server error'')"
  by (simp_all add: POST_promote_def)

lemma POST_demote_no_body:
  "POST_demote rpc None = (500, error_body ''Internal server error'')"
  "POST_demote rpc (Some JNull) = (500, error_body ''Internal server error'')"
  by (simp_all add: POST_demote_def)

lemma POST_promote_not_null:
  assumes "b \<noteq> JNull"
  shows "POST_promote rpc (Some b) =
     (let userId = get_prop b ''userId''; r = get_prop b ''role'' in
          if \<not> truthy userId \<or> \<not> truthy r then (400, error_body ''Missing userId or role'')
          else (case (userId, included_role r) of
                  (Some u, Some new_role) \<Rightarrow>
                    (case rpc u new_role of
                       rpc_threw \<Rightarrow> (500, error_body ''Internal server error'')
                     | rpc_returned (Some e) \<Rightarrow> (400, error_message_of e)
                     | rpc_returned None \<Rightarrow>
                         (200, success_body (''User successfully promoted to '' @ new_role)))
                | _ \<Rightarrow> (400, error_body ''Invalid role. Must be user, admin, or super_admin'')))"
  using assms by (cases b) (simp_all add: POST_promote_def)

lemma POST_demote_not_null:
  assumes "b \<noteq> JNull"
  shows "POST_demote rpc (Some b) =
          (case get_prop b ''userId'' of
             None \<Rightarrow> (400, error_body ''Missing userId'')
           | Some u \<Rightarrow>
               if \<not> truthy (Some u) then (400, error_body ''Missing userId'')
               else (case rpc u of
                       rpc_threw \<Rightarrow> (500, error_body ''Internal server error'')
                     | rpc_returned (Some e) \<Rightarrow> (400, error_message_of e)
                     | rpc_returned None \<Rightarrow>
                         (200, success_body ''User successfully demoted to regular user'')))"
  using assms by (cases b) (simp_all add: POST_demote_def)

lemma POST_promote_missing:
  assumes "b \<noteq> JNull" and "\<not> truthy (get_prop b ''userId'') \<or> \<not> truthy (get_prop b ''role'')"
  shows "POST_promote rpc (Some b) = (400, error_body ''Missing userId or role'')"
  using assms(2) by (auto simp add: POST_promote_not_null [OF assms(1)] Let_def)

lemma POST_promote_invalid:
  assumes "b \<noteq> JNull" and "truthy (get_prop b ''userId'')" and "truthy (get_prop b ''role'')"
      and "included_role (get_prop b ''role'') = None"
  shows "POST_promote rpc (Some b) =
           (400, error_body ''Invalid role. Must be user, admin, or super_admin'')"
  using assms(2-)
  by (auto simp add: POST_promote_not_null [OF assms(1)] Let_def split: option.splits)

lemma POST_promote_forward:
  assumes "b \<noteq> JNull" and "get_prop b ''userId'' = Some u" and "truthy (Some u)"
      and "get_prop b ''role'' = Some (JStr r)" and "r \<in> set [''user'', ''admin'', ''super_admin'']"
  shows "POST_promote rpc (Some b) =
           (case rpc u r of
              rpc_threw \<Rightarrow> (500, error_body ''Internal server error'')
            | rpc_returned (Some e) \<Rightarrow> (400, error_message_of e)
            | rpc_returned None \<Rightarrow> (200, success_body (''User successfully promoted to '' @ r)))"
proof -
  from assms(4,5) have "included_role (get_prop b ''role'') = Some r"
    by (simp add: included_role_Some)
  moreover from assms(4,5) have "truthy (get_prop b ''role'')" by auto
  ultimately show ?thesis
    using assms(2,3) by (simp add: POST_promote_not_null [OF assms(1)])
qed

lemma POST_demote_missing:
  assumes "b \<noteq> JNull" and "\<not> truthy (get_prop b ''userId'')"
  shows "POST_demote rpc (Some b) = (400, error_body ''Missing userId'')"
  using assms(2) by (cases "get_prop b ''userId''") (simp_all add: POST_demote_not_null [OF assms(1)])

lemma POST_demote_forward:
  assumes "b \<noteq> JNull" and "get_prop b ''userId'' = Some u" and "truthy (Some u)"
  shows "POST_demote rpc (Some b) =
           (case rpc u of
              rpc_threw \<Rightarrow> (500, error_body ''Internal server error'')
            | rpc_returned (Some e) \<Rightarrow> (400, error_message_of e)
            | rpc_returned None \<Rightarrow> (200, success_body ''User successfully demoted to regular user''))"
  using assms(2,3) by (simp add: POST_demote_not_null [OF assms(1)])

text \<open>
  C9, as the code has it. A request without a usable body (empty or malformed, so that
  \<^verbatim>\<open>request.json()\<close> throws, or the JSON value \<^verbatim>\<open>null\<close>) is answered 500 by
  both endpoints, whatever the procedure call would do. For a body \<open>b\<close> that parses
  to any other JSON value: the promote endpoint answers 400 "Missing userId or role"
  when \<^verbatim>\<open>userId\<close> or \<^verbatim>\<open>role\<close> is missing or falsy, and 400 "Invalid role" when
  the role is not one of the three strings; the demote endpoint answers 400 "Missing
  userId" when \<^verbatim>\<open>userId\<close> is missing or falsy. These answers hold for every
  procedure call \<open>promote_rpc\<close>, \<open>demote_rpc\<close>, also one that would throw: the call
  is not made. With a valid body, an error \<open>e\<close> returned by the call becomes status
  400 with the message of \<open>e\<close>, whatever \<open>e\<close> is, a call without error becomes
  status 200 with the success message, and a call that throws becomes status 500.
\<close>

theorem C9_http_endpoints:
  "POST_promote promote_rpc None = (500, error_body ''Internal server error'')
   \<and> POST_promote promote_rpc (Some JNull) = (500, error_body ''Internal server error'')
   \<and> POST_demote demote_rpc None = (500, error_body ''Internal server error'')
   \<and> POST_demote demote_rpc (Some JNull) = (500, error_body ''Internal server error'')
   \<and> (b \<noteq> JNull \<and> (\<not> truthy (get_prop b ''userId'') \<or> \<not> truthy (get_prop b ''role''))
        \<longrightarrow> POST_promote promote_rpc (Some b) = (400, error_body ''Missing userId or role''))
   \<and> (b \<noteq> JNull \<and> truthy (get_prop b ''userId'') \<and> truthy (get_prop b ''role'')
        \<and> included_role (get_prop b ''role'') = None
        \<longrightarrow> POST_promote promote_rpc (Some b) =
              (400, error_body ''Invalid role. Must be user, admin, or super_admin''))
   \<and> (b \<noteq> JNull \<and> get_prop b ''userId'' = Some u \<and> truthy (Some u)
        \<and> get_prop b ''role'' = Some (JStr r) \<and> r \<in> set [''user'', ''admin'', ''super_admin'']
        \<longrightarrow> (promote_rpc u r = rpc_returned (Some e) \<longrightarrow>
                POST_promote promote_rpc (Some b) = (400, error_message_of e))
            \<and> (promote_rpc u r = rpc_returned None \<longrightarrow>
                POST_promote promote_rpc (Some b) =
                  (200, success_body (''User successfully promoted to '' @ r)))
            \<and> (promote_rpc u r = rpc_threw \<longrightarrow>
                POST_promote promote_rpc (Some b) = (500, error_body ''Internal server error'')))
   \<and> (b \<noteq> JNull \<and> \<not> truthy (get_prop b ''userId'')
        \<longrightarrow> POST_demote demote_rpc (Some b) = (400, error_body ''Missing userId''))
   \<and> (b \<noteq> JNull \<and> get_prop b ''userId'' = Some u \<and> truthy (Some u)
        \<longrightarrow> (demote_rpc u = rpc_returned (Some e) \<longrightarrow>
                POST_demote demote_rpc (Some b) = (400, error_message_of e))
            \<and> (demote_rpc u = rpc_returned None \<longrightarrow>
                POST_demote demote_rpc (Some b) =
                  (200, success_body ''User successfully demoted to regular user''))
            \<and> (demote_rpc u = rpc_threw \<longrightarrow>
                POST_demote demote_rpc (Some b) = (500, error_body ''Internal server error'')))"
proof (intro conjI impI)
  show "POST_promote promote_rpc None = (500, error_body ''Internal server error'')"
    and "POST_promote promote_rpc (Some JNull) = (500, error_body ''Internal server error'')"
    by (rule POST_promote_no_body)+
  show "POST_demote demote_rpc None = (500, error_body ''Internal server error'')"
    and "POST_demote demote_rpc (Some JNull) = (500, error_body ''Internal server error'')"
    by (rule POST_demote_no_body)+
next
  assume "b \<noteq> JNull \<and> (\<not> truthy (get_prop b ''userId'') \<or> \<not> truthy (get_prop b ''role''))"
  then have "b \<noteq> JNull"
    and "\<not> truthy (get_prop b ''userId'') \<or> \<not> truthy (get_prop b ''role'')"
    by simp_all
  then show "POST_promote promote_rpc (Some b) = (400, error_body ''Missing userId or role'')"
    by (rule POST_promote_missing)
next
  assume "b \<noteq> JNull \<and> truthy (get_prop b ''userId'') \<and> truthy (get_prop b ''role'')
            \<and> included_role (get_prop b ''role'') = None"
  then show "POST_promote promote_rpc (Some b) =
      (400, error_body ''Invalid role. Must be user, admin, or super_admin'')"
    by (simp add: POST_promote_invalid)
next
  assume a: "b \<noteq> JNull \<and> get_prop b ''userId'' = Some u \<and> truthy (Some u)
        \<and> get_prop b ''role'' = Some (JStr r) \<and> r \<in> set [''user'', ''admin'', ''super_admin'']"
  then have fw: "POST_promote promote_rpc (Some b) =
           (case promote_rpc u r of
              rpc_threw \<Rightarrow> (500, error_body ''Internal server error'')
            | rpc_returned (Some e) \<Rightarrow> (400, error_message_of e)
            | rpc_returned None \<Rightarrow> (200, success_body (''User successfully promoted to '' @ r)))"
    by (intro POST_promote_forward) simp_all
  {
    assume "promote_rpc u r = rpc_returned (Some e)"
    with fw show "POST_promote promote_rpc (Some b) = (400, error_message_of e)" by simp
  }
  {
    assume "promote_rpc u r = rpc_returned None"
    with fw show "POST_promote promote_rpc (Some b) =
        (200, success_body (''User successfully promoted to '' @ r))" by simp
  }
  {
    assume "promote_rpc u r = rpc_threw"
    with fw show "POST_promote promote_rpc (Some b) = (500, error_body ''Internal server error'')"
      by simp
  }
next
  assume "b \<noteq> JNull \<and> \<not> truthy (get_prop b ''userId'')"
  then have "b \<noteq> JNull" and "\<not> truthy (get_prop b ''userId'')"
    by simp_all
  then show "POST_demote demote_rpc (Some b) = (400, error_body ''Missing userId'')"
    by (rule POST_demote_missing)
next
  assume a: "b \<noteq> JNull \<and> get_prop b ''userId'' = Some u \<and> truthy (Some u)"
  then have fw: "POST_demote demote_rpc (Some b) =
           (case demote_rpc u of
              rpc_threw \<Rightarrow> (500, error_body ''Internal server error'')
            | rpc_returned (Some e) \<Rightarrow> (400, error_message_of e)
            | rpc_returned None \<Rightarrow> (200, success_body ''User successfully demoted to regular user''))"
    by (intro POST_demote_forward) simp_all
  {
    assume "demote_rpc u = rpc_returned (Some e)"
    with fw show "POST_demote demote_rpc (Some b) = (400, error_message_of e)" by simp
  }
  {
    assume "demote_rpc u = rpc_returned None"
    with fw show "POST_demote demote_rpc (Some b) =
        (200, success_body ''User successfully demoted to regular user'')" by simp
  }
  {
    assume "demote_rpc u = rpc_threw"
    with fw show "POST_demote demote_rpc (Some b) = (500, error_body ''Internal server error'')"
      by simp
  }
qed

theorem C9_http_endpoints_witness:
  "POST_promote (\<lambda>u r. rpc_threw :: pg_error rpc_outcome) (Some (JObj [(''role'', JStr ''admin'')]))
     = (400, error_body ''Missing userId or role'')
   \<and> POST_promote (\<lambda>u r. rpc_threw :: pg_error rpc_outcome)
        (Some (JObj [(''userId'', JNum (js_finite 0)), (''role'', JStr ''admin'')]))
     = (400, error_body ''Missing userId or role'')
   \<and> POST_promote (\<lambda>u r. rpc_threw :: pg_error rpc_outcome)
        (Some (JObj [(''userId'', JStr ''u2''), (''role'', JStr ''owner'')]))
     = (400, error_body ''Invalid role. Must be user, admin, or super_admin'')
   \<and> POST_promote (\<lambda>u r. rpc_returned (Some untouchable))
        (Some (JObj [(''userId'', JStr ''u2''), (''role'', JStr ''admin'')]))
     = (400, error_message_of untouchable)
   \<and> POST_promote promote_rpc_ok
        (Some (JObj [(''userId'', JStr ''u2''), (''role'', JStr ''admin'')]))
     = (200, success_body ''User successfully promoted to admin'')
   \<and> POST_demote (\<lambda>u. rpc_threw :: pg_error rpc_outcome) (Some (JObj []))
     = (400, error_body ''Missing userId'')
   \<and> POST_demote (\<lambda>u. rpc_returned (Some demote_unauthorized)) (Some (JObj [(''userId'', JStr ''u2'')]))
     = (400, error_message_of demote_unauthorized)
   \<and> POST_demote demote_rpc_ok (Some (JObj [(''userId'', JStr ''u2'')]))
     = (200, success_body ''User successfully demoted to regular user'')"
  using
    C9_http_endpoints [of "\<lambda>u r. rpc_threw :: pg_error rpc_outcome"
      "\<lambda>u. rpc_threw :: pg_error rpc_outcome" "JObj [(''role'', JStr ''admin'')]"]
    C9_http_endpoints [of "\<lambda>u r. rpc_threw :: pg_error rpc_outcome"
      "\<lambda>u. rpc_threw :: pg_error rpc_outcome"
      "JObj [(''userId'', JNum (js_finite 0)), (''role'', JStr ''admin'')]"]
    C9_http_endpoints [of "\<lambda>u r. rpc_threw :: pg_error rpc_outcome"
      "\<lambda>u. rpc_threw :: pg_error rpc_outcome"
      "JObj [(''userId'', JStr ''u2''), (''role'', JStr ''owner'')]"]
    C9_http_endpoints [of "\<lambda>u r. rpc_returned (Some untouchable)"
      "\<lambda>u. rpc_returned (Some demote_unauthorized)"
      "JObj [(''userId'', JStr ''u2''), (''role'', JStr ''admin'')]"
      "JStr ''u2''" "''admin''" untouchable]
    C9_http_endpoints [of promote_rpc_ok demote_rpc_ok
      "JObj [(''userId'', JStr ''u2''), (''role'', JStr ''admin'')]" "JStr ''u2''" "''admin''"]
    C9_http_endpoints [of "\<lambda>u r. rpc_threw :: pg_error rpc_outcome"
      "\<lambda>u. rpc_threw :: pg_error rpc_outcome" "JObj []"]
    C9_http_endpoints [of "\<lambda>u r. rpc_threw"
      "\<lambda>u. rpc_returned (Some demote_unauthorized)" "JObj [(''userId'', JStr ''u2'')]"
      "JStr ''u2''" _ demote_unauthorized]
    C9_http_endpoints [of promote_rpc_ok demote_rpc_ok "JObj [(''userId'', JStr ''u2'')]"
      "JStr ''u2''"]
  by (simp add: POST_promote_def POST_demote_def promote_rpc_ok_def demote_rpc_ok_def)

text \<open>The claim as stated fails for a request whose body is \<^verbatim>\<open>null\<close>, empty or
  malformed: it has no \<^verbatim>\<open>userId\<close>, and the answer is 500, not 400, although the
  procedure call would have succeeded.\<close>

theorem C9_counterexample:
  "get_prop JNull ''userId'' = None
   \<and> POST_promote promote_rpc_ok (Some JNull) = (500, error_body ''Internal server error'')
   \<and> POST_promote promote_rpc_ok None = (500, error_body ''Internal server error'')
   \<and> POST_demote demote_rpc_ok (Some JNull) = (500, error_body ''Internal server error'')
   \<and> POST_demote demote_rpc_ok None = (500, error_body ''Internal server error'')
   \<and> fst (POST_promote promote_rpc_ok (Some JNull)) \<noteq> 400
   \<and> fst (POST_demote demote_rpc_ok None) \<noteq> 400"
  by (simp add: POST_promote_def POST_demote_def)

section \<open>The modal's direct insert\<close>

lemma insert_existing_fails:
  assumes "admin_users st t = Some old"
  shows "insert_admin_users role_ok now st t r c =
           Inl (if role_ok r then unique_violation else check_violation)"
  using assms by (simp add: insert_admin_users_def)

lemma insert_keeps_rows:
  assumes "insert_admin_users role_ok now st t r c = Inr st'" and "admin_users st i = Some a"
  shows "admin_users st' i = Some a"
  using assms by (auto simp: insert_admin_users_def split: if_splits)

text \<open>While the list has not loaded, the handler stops at its own check.\<close>

lemma handlePromote_list_not_loaded:
  "handlePromote role_ok now audit_ok (Some me) None st t r = (not_super_admin, st)"
  by (simp add: handlePromote_def currentUserRole_def)

text \<open>
  C10. \<^verbatim>\<open>handlePromote\<close> inserts into \<^verbatim>\<open>admin_users\<close> without
  \<^verbatim>\<open>on conflict\<close>. When the signed-in user is a \<^verbatim>\<open>super_admin\<close> in the list the
  page holds (otherwise the handler returns before the insert) and the requested role
  passes the row constraint, a target that already has a row, of any role, makes the
  insert fail with the duplicate-key error. For such a target the handler never reports
  a promotion and the state is as it was; and for any target, every row that existed
  before the call is the same after it: the handler can add a row, never change one.
\<close>

theorem C10_modal_promote:
  "(user = Some me \<and> currentUserRole adminUsers me = Some ''super_admin'' \<and> role_ok (Some r)
       \<and> admin_users st t = Some old
      \<longrightarrow> handlePromote role_ok now audit_ok user adminUsers st t r
            = (insert_failed unique_violation, st))
   \<and> (admin_users st t = Some old
      \<longrightarrow> snd (handlePromote role_ok now audit_ok user adminUsers st t r) = st
          \<and> fst (handlePromote role_ok now audit_ok user adminUsers st t r) \<noteq> promoted)
   \<and> (admin_users st i = Some a
      \<longrightarrow> admin_users (snd (handlePromote role_ok now audit_ok user adminUsers st t r)) i = Some a)"
proof (intro conjI impI)
  assume "user = Some me \<and> currentUserRole adminUsers me = Some ''super_admin'' \<and> role_ok (Some r)
       \<and> admin_users st t = Some old"
  then show "handlePromote role_ok now audit_ok user adminUsers st t r
            = (insert_failed unique_violation, st)"
    by (simp add: handlePromote_def insert_existing_fails)
next
  assume "admin_users st t = Some old"
  then show "snd (handlePromote role_ok now audit_ok user adminUsers st t r) = st"
    by (simp add: handlePromote_def insert_existing_fails split: option.splits)
next
  assume "admin_users st t = Some old"
  then show "fst (handlePromote role_ok now audit_ok user adminUsers st t r) \<noteq> promoted"
    by (simp add: handlePromote_def insert_existing_fails split: option.splits)
next
  assume a: "admin_users st i = Some a"
  show "admin_users (snd (handlePromote role_ok now audit_ok user adminUsers st t r)) i = Some a"
  proof (cases user)
    case None
    with a show ?thesis by (simp add: handlePromote_def)
  next
    case (Some me')
    show ?thesis
    proof (cases "insert_admin_users role_ok now st t (Some r) (Some me')")
      case (Inl e)
      with Some a show ?thesis by (simp add: handlePromote_def)
    next
      case (Inr st')
      from Inr a have "admin_users st' i = Some a" by (rule insert_keeps_rows)
      with Some Inr a show ?thesis by (simp add: handlePromote_def)
    qed
  qed
qed

text \<open>The witness: the page holds the list it loaded before the second user was made an
  \<^verbatim>\<open>admin\<close>, and the operator promotes that user once more.\<close>

lemma currentUserRole_loaded0: "currentUserRole (Some loaded0) 1 = Some ''super_admin''"
  by (simp add: currentUserRole_def loaded0_def)

theorem C10_modal_promote_witness:
  "currentUserRole (Some loaded0) 1 = Some ''super_admin''
   \<and> admin_users_role_check (Some ''super_admin'')
   \<and> map_option role (admin_users db1 2) = Some (Some ''admin'')
   \<and> handlePromote admin_users_role_check 40 True (Some 1) (Some loaded0) db1 2 ''super_admin''
       = (insert_failed unique_violation, db1)"
  using C10_modal_promote [of "Some 1" 1 "Some loaded0" admin_users_role_check
      "''super_admin''" db1 2
      "\<lparr>role = Some ''admin'', au_created_at = 25, au_updated_at = 25, created_by = Some 1\<rparr>" 40 True]
  by (simp add: currentUserRole_loaded0 admin_users_role_check_def) (simp add: db1_def db0_def)

section \<open>Searching the directory from the admin page\<close>

lemma email_matches_abc:
  "email_matches ''abc'' ''abcuser@x.com''" "\<not> email_matches ''abc'' ''xyz@x.com''"
  "\<not> email_matches ''abc'' ''root@x.com''"
  by (simp_all add: email_matches_def lower_char_def)

lemma email_matches_upper: "email_matches ''ABC'' ''abcuser@x.com''"
  by code_simp

lemma search_db0:
  "searchUsers (search_directory db0) ''abc'' =
     [\<lparr>hit_id = 2, hit_email = Some ''abcuser@x.com'', hit_created_at = Some 20\<rparr>]"
  by (simp add: searchUsers_def search_directory_def db0_def mk_user_def email_matches_abc)

text \<open>A query of fewer than three characters gives no hits, whatever the search request
  would answer: the request is not made.\<close>

lemma short_query_no_storage:
  assumes "length q < 3"
  shows "searchUsers search_api q = [] \<and> handleSearch search_api adminUsers q = []"
  using assms by (simp add: searchUsers_def handleSearch_def)



text \<open>
  Were the list to load (\<^verbatim>\<open>use_column\<close>), the search would still not return the
  user. The list comes from \<^verbatim>\<open>get_all_users\<close> and so holds an entry for every row of
  \<^verbatim>\<open>public.users\<close>, with role \<^verbatim>\<open>user\<close> for those without a registry row;
  \<^verbatim>\<open>handleSearch\<close> removes every hit whose id is in that list, where its comment
  has it "filter out users who are already admins". So no registered user is left among
  the results.
\<close>

lemma fetchAdminUsers_ids:
  assumes "fetchAdminUsers vc uid st = Some es"
  shows "set (map entry_id es) = u_id ` set (users st)"
proof -
  from assms have es: "es = map shape_entry (order_by_created_at_desc (map (left_join_admin st) (users st)))"
    by (cases vc) (auto simp: fetchAdminUsers_def get_all_users_def split: if_splits)
  have "entry_id (shape_entry (left_join_admin st u)) = u_id u" for u
    by (simp add: shape_entry_def left_join_admin_def)
  then show ?thesis
    unfolding es by (auto simp: order_by_created_at_desc_set image_iff)
qed

lemma handleSearch_drops_every_listed_user:
  assumes "fetchAdminUsers vc uid st = Some es"
      and "h \<in> set (handleSearch search_api (Some es) q)"
  shows "\<not> user_exists st (hit_id h)"
proof -
  from assms(2) have "hit_id h \<notin> set (map entry_id es)"
    by (auto simp: handleSearch_def Let_def split: if_splits)
  with fetchAdminUsers_ids [OF assms(1)] have "hit_id h \<notin> u_id ` set (users st)"
    by simp
  then show ?thesis
    by (auto simp: user_exists_def image_iff)
qed

lemma fetchAdminUsers_use_column_db0: "fetchAdminUsers vc_use_column (Some 1) db0 = Some loaded0"
  by (simp add: fetchAdminUsers_def get_all_users_def has_role_def
      order_by_created_at_desc_def left_join_admin_def shape_entry_def loaded0_def
      db0_def mk_user_def root_row_def)

lemma page_search_use_column_db0:
  "page_search (search_directory db0)
     (query_settled (fetchAdminUsers vc_use_column (Some 1) db0)) ''abc'' = Some []"
  by (simp add: fetchAdminUsers_use_column_db0 query_settled_def page_search_def
      handleSearch_def search_db0) (simp add: loaded0_def)

end
